theory Spec2Isabelle
  imports Complex_Main "HOL-Library.Word" "HOL-Library.Sublist"
begin

section \<open>JavaScript strings and numbers\<close>

text \<open>
  A JavaScript string is a sequence of 16-bit UTF-16 code units. The subtitle texts and
  the prompt are Japanese, so the code units are kept as they are; an ASCII literal of
  the source is written \<open>ascii ''...''\<close>.
\<close>

type_synonym jschar = "16 word"
type_synonym jsstring = "jschar list"

definition ascii :: "string \<Rightarrow> jsstring" where
  "ascii s = map (\<lambda>c. of_nat (of_char c)) s"

text \<open>
  A JavaScript number is an IEEE 754 double: a finite value, \<open>NaN\<close> or an infinity. A
  finite double is kept as the real it denotes; the two zeros are one value, since they
  print the same and no operation used here tells them apart. An integral number (what
  \<open>Math.floor\<close> and \<open>Math.round\<close> return) is kept as an integer.
\<close>

datatype 'a js_number = Finite 'a | NaN | PosInf | NegInf

type_synonym number = "real js_number"
type_synonym integral = "int js_number"

text \<open>
  Rounding of a real to the nearest double, ties to the even significand. The exponent of
  a positive real is found by halving or doubling it until it lies in \<open>[1, 2)\<close>; it is
  not taken below \<open>-1022\<close>, so that the subnormal doubles are the multiples of \<open>2^-1074\<close>.
  The doubles with exponent \<open>e\<close> are the multiples of \<open>2^(e - 52)\<close>. A result of
  magnitude \<open>2^1024\<close> or more is an infinity.
\<close>

definition pow2 :: "int \<Rightarrow> real" where
  "pow2 e = (if 0 \<le> e then 2 ^ nat e else 1 / 2 ^ nat (- e))"

primrec exponent_up :: "nat \<Rightarrow> real \<Rightarrow> nat" where
  "exponent_up 0 x = 0"
| "exponent_up (Suc n) x = (if 2 \<le> x then Suc (exponent_up n (x / 2)) else 0)"

primrec exponent_down :: "nat \<Rightarrow> real \<Rightarrow> nat" where
  "exponent_down 0 x = 0"
| "exponent_down (Suc n) x = (if x < 1 then Suc (exponent_down n (2 * x)) else 0)"

definition exponent :: "real \<Rightarrow> int" where
  "exponent x = (if 1 \<le> x then int (exponent_up 1024 x) else - int (exponent_down 1022 x))"

definition round_half_even :: "real \<Rightarrow> int" where
  "round_half_even m =
     (let f = \<lfloor>m\<rfloor>; d = m - of_int f
      in if d < 1 / 2 then f else if 1 / 2 < d then f + 1 else if even f then f else f + 1)"

definition nearest_double :: "real \<Rightarrow> real" where
  "nearest_double x =
     (if x = 0 then 0
      else (let q = pow2 (exponent \<bar>x\<bar> - 52);
                r = of_int (round_half_even (\<bar>x\<bar> / q)) * q
            in if x < 0 then - r else r))"

definition round_double :: "real \<Rightarrow> number" where
  "round_double x =
     (let r = nearest_double x
      in if 2 ^ 1024 \<le> r then PosInf else if r \<le> - (2 ^ 1024) then NegInf else Finite r)"

text \<open>
  The arithmetic that \<open>formatTime\<close> uses. The right operand of \<open>/\<close>, \<open>*\<close> and \<open>%\<close> is
  there a positive constant (3600, 60, 1000), and it is a real here. Quotient, product
  and difference are rounded to the nearest double. The remainder of \<open>%\<close> has the sign of
  the dividend (the quotient is truncated towards zero) and is exact.
\<close>

definition js_trunc :: "real \<Rightarrow> int" where
  "js_trunc q = (if 0 \<le> q then \<lfloor>q\<rfloor> else \<lceil>q\<rceil>)"

definition js_div :: "number \<Rightarrow> real \<Rightarrow> number" where
  "js_div x c =
     (case x of
        Finite a \<Rightarrow> round_double (a / c)
      | NaN \<Rightarrow> NaN
      | PosInf \<Rightarrow> PosInf
      | NegInf \<Rightarrow> NegInf)"

definition js_mul :: "number \<Rightarrow> real \<Rightarrow> number" where
  "js_mul x c =
     (case x of
        Finite a \<Rightarrow> round_double (a * c)
      | NaN \<Rightarrow> NaN
      | PosInf \<Rightarrow> PosInf
      | NegInf \<Rightarrow> NegInf)"

definition js_rem :: "number \<Rightarrow> real \<Rightarrow> number" where
  "js_rem x c =
     (case x of
        Finite a \<Rightarrow> Finite (a - c * of_int (js_trunc (a / c)))
      | _ \<Rightarrow> NaN)"

fun js_sub :: "number \<Rightarrow> number \<Rightarrow> number" where
  "js_sub (Finite a) (Finite b) = round_double (a - b)"
| "js_sub NaN y = NaN"
| "js_sub x NaN = NaN"
| "js_sub PosInf PosInf = NaN"
| "js_sub NegInf NegInf = NaN"
| "js_sub PosInf y = PosInf"
| "js_sub NegInf y = NegInf"
| "js_sub (Finite a) PosInf = NegInf"
| "js_sub (Finite a) NegInf = PosInf"

text \<open>
  \<open>Math.floor\<close>, and \<open>Math.round\<close>, which rounds a half towards plus infinity. Both
  return an integral number, which \<open>to_number\<close> gives back to the arithmetic.
\<close>

definition Math_floor :: "number \<Rightarrow> integral" where
  "Math_floor x =
     (case x of
        Finite a \<Rightarrow> Finite \<lfloor>a\<rfloor>
      | NaN \<Rightarrow> NaN
      | PosInf \<Rightarrow> PosInf
      | NegInf \<Rightarrow> NegInf)"

definition Math_round :: "number \<Rightarrow> integral" where
  "Math_round x =
     (case x of
        Finite a \<Rightarrow> Finite \<lfloor>a + 1 / 2\<rfloor>
      | NaN \<Rightarrow> NaN
      | PosInf \<Rightarrow> PosInf
      | NegInf \<Rightarrow> NegInf)"

definition to_number :: "integral \<Rightarrow> number" where
  "to_number x =
     (case x of
        Finite i \<Rightarrow> Finite (of_int i)
      | NaN \<Rightarrow> NaN
      | PosInf \<Rightarrow> PosInf
      | NegInf \<Rightarrow> NegInf)"

text \<open>
  \<open>Number.prototype.toString\<close> on an integral number. Below \<open>2^53\<close> it prints the decimal
  digits of the integer. From \<open>2^53\<close> on, where the doubles are more than 1 apart, it
  prints the shortest decimal that rounds to the double, and the closest to it among the
  shortest: the decimals that round to \<open>x\<close> are those between the midpoints to its
  neighbours (the midpoints too when the significand of \<open>x\<close> is even), and the shortest
  is the multiple of the highest power of ten among them. A decimal of more than 21
  digits is printed with an exponent.
\<close>

definition digit_char :: "nat \<Rightarrow> jschar" where
  "digit_char d = of_nat (48 + d)"

fun digits :: "nat \<Rightarrow> jsstring" where
  "digits n = (if n < 10 then [digit_char n] else digits (n div 10) @ [digit_char (n mod 10)])"

declare digits.simps [simp del]

fun log2_floor :: "nat \<Rightarrow> nat" where
  "log2_floor n = (if n < 2 then 0 else Suc (log2_floor (n div 2)))"

declare log2_floor.simps [simp del]

definition shortest_candidate :: "nat \<Rightarrow> nat \<Rightarrow> nat option" where
  "shortest_candidate x j =
     (let e = log2_floor x;
          above = 2 ^ (e - 52);
          below = (if x = 2 ^ e then 2 ^ (e - 53) else 2 ^ (e - 52));
          closed = even (x div above);
          lo2 = 2 * x - below;
          hi2 = 2 * x + above;
          p = 2 * 10 ^ j;
          s_min = (if closed then (lo2 + p - 1) div p else lo2 div p + 1);
          s_max = (if closed then hi2 div p else (hi2 - 1) div p);
          c0 = x div 10 ^ j;
          r = x mod 10 ^ j;
          c = (if 2 * r < 10 ^ j then c0
               else if 10 ^ j < 2 * r then c0 + 1
               else if even c0 then c0 else c0 + 1)
      in if s_min \<le> s_max then Some (max s_min (min s_max c) * 10 ^ j) else None)"

primrec shortest_from :: "nat \<Rightarrow> nat \<Rightarrow> nat" where
  "shortest_from 0 x = x"
| "shortest_from (Suc j) x =
     (case shortest_candidate x (Suc j) of Some v \<Rightarrow> v | None \<Rightarrow> shortest_from j x)"

definition shortest_decimal :: "nat \<Rightarrow> nat" where
  "shortest_decimal x = shortest_from (length (digits x) - 1) x"

definition strip_zeros :: "jsstring \<Rightarrow> jsstring" where
  "strip_zeros ds = rev (dropWhile (\<lambda>c. c = digit_char 0) (rev ds))"

definition exponent_form :: "nat \<Rightarrow> jsstring" where
  "exponent_form v =
     (let ds = digits v
      in case strip_zeros ds of
           [] \<Rightarrow> ds
         | d # rest \<Rightarrow>
             [d] @ (if rest = [] then [] else ascii ''.'' @ rest) @ ascii ''e+'' @
             digits (length ds - 1))"

definition nat_toString :: "nat \<Rightarrow> jsstring" where
  "nat_toString n =
     (if n < 2 ^ 53 then digits n
      else (let v = shortest_decimal n
            in if v < 10 ^ 21 then digits v else exponent_form v))"

definition toString :: "integral \<Rightarrow> jsstring" where
  "toString x =
     (case x of
        Finite i \<Rightarrow> if i < 0 then ascii ''-'' @ nat_toString (nat (- i)) else nat_toString (nat i)
      | NaN \<Rightarrow> ascii ''NaN''
      | PosInf \<Rightarrow> ascii ''Infinity''
      | NegInf \<Rightarrow> ascii ''-Infinity'')"

text \<open>\<open>String.prototype.padStart\<close> with a one-character fill string.\<close>

definition padStart :: "nat \<Rightarrow> jschar \<Rightarrow> jsstring \<Rightarrow> jsstring" where
  "padStart n c s = (if n \<le> length s then s else replicate (n - length s) c @ s)"

text \<open>
  \<open>String.prototype.trim\<close> removes the white space and the line terminators of
  ECMAScript from both ends: tab, vertical tab, form feed, space, no-break space, the byte
  order mark, the code points of the Unicode category Zs, and line feed, carriage return,
  line separator, paragraph separator.
\<close>

definition isWhiteSpace :: "jschar \<Rightarrow> bool" where
  "isWhiteSpace c \<longleftrightarrow>
     c = 0x0009 \<or> c = 0x000B \<or> c = 0x000C \<or> c = 0x0020 \<or> c = 0x00A0 \<or> c = 0xFEFF \<or>
     c = 0x1680 \<or> (0x2000 \<le> c \<and> c \<le> 0x200A) \<or> c = 0x202F \<or> c = 0x205F \<or> c = 0x3000"

definition isLineTerminator :: "jschar \<Rightarrow> bool" where
  "isLineTerminator c \<longleftrightarrow> c = 0x000A \<or> c = 0x000D \<or> c = 0x2028 \<or> c = 0x2029"

definition trimmable :: "jschar \<Rightarrow> bool" where
  "trimmable c \<longleftrightarrow> isWhiteSpace c \<or> isLineTerminator c"

definition trim :: "jsstring \<Rightarrow> jsstring" where
  "trim s = rev (dropWhile trimmable (rev (dropWhile trimmable s)))"

definition newline :: jsstring where
  "newline = [0x000A]"

text \<open>
  \<open>Array.prototype.join\<close> on an array of strings, and \<open>Array.prototype.map\<close> with a
  callback that takes the element and its index.
\<close>

fun join :: "jsstring \<Rightarrow> jsstring list \<Rightarrow> jsstring" where
  "join sep [] = []"
| "join sep [x] = x"
| "join sep (x # y # ys) = x @ sep @ join sep (y # ys)"

fun map_from :: "nat \<Rightarrow> ('a \<Rightarrow> nat \<Rightarrow> 'b) \<Rightarrow> 'a list \<Rightarrow> 'b list" where
  "map_from i f [] = []"
| "map_from i f (x # xs) = f x i # map_from (Suc i) f xs"

definition Array_map :: "('a \<Rightarrow> nat \<Rightarrow> 'b) \<Rightarrow> 'a list \<Rightarrow> 'b list" where
  "Array_map f xs = map_from 0 f xs"

section \<open>The SRT encoder (App.tsx)\<close>

text \<open>
  \<open>TranscriptionSegment\<close> has the fields \<open>start\<close>, \<open>end\<close> and \<open>text\<close>, the three
  properties that the response schema of the service requires. A value may carry more
  properties than these: they are the extension of the record.
\<close>

record TranscriptionSegment =
  seg_start :: number
  seg_end :: number
  seg_text :: jsstring

definition formatTime :: "number \<Rightarrow> jsstring" where
  "formatTime totalSeconds =
     (let hours = padStart 2 (digit_char 0)
                    (toString (Math_floor (js_div totalSeconds 3600)));
          minutes = padStart 2 (digit_char 0)
                      (toString (Math_floor (js_div (js_rem totalSeconds 3600) 60)));
          seconds = padStart 2 (digit_char 0) (toString (Math_floor (js_rem totalSeconds 60)));
          milliseconds = padStart 3 (digit_char 0)
                      (toString (Math_round
                         (js_mul (js_sub totalSeconds (to_number (Math_floor totalSeconds)))
                            1000)))
      in hours @ ascii '':'' @ minutes @ ascii '':'' @ seconds @ ascii '','' @ milliseconds)"

text \<open>
  The callback of \<open>transcription.map\<close> in \<open>jsonToSrt\<close>: one SRT block. An array index
  is an integer below \<open>2^32\<close>, so that \<open>index + 1\<close> is exact.
\<close>

definition srt_block :: "'a TranscriptionSegment_scheme \<Rightarrow> nat \<Rightarrow> jsstring" where
  "srt_block segment index =
     (let startTime = formatTime (seg_start segment);
          endTime = formatTime (seg_end segment)
      in toString (Finite (int index + 1)) @ newline @ startTime @ ascii '' --> '' @ endTime @
         newline @ trim (seg_text segment) @ newline)"

definition jsonToSrt :: "'a TranscriptionSegment_scheme list \<Rightarrow> jsstring" where
  "jsonToSrt transcription = join newline (Array_map srt_block transcription)"

section \<open>The transcription client (services/geminiService.ts)\<close>

text \<open>
  A thrown value is an instance of \<open>Error\<close>, with its message, or something else (the
  progress event a \<open>FileReader\<close> reports, for instance).
\<close>

datatype thrown = Error (message: jsstring) | NonError

text \<open>
  The audio file: its MIME type and what \<open>FileReader.readAsDataURL\<close> does on it, either
  the error event or the data URL.
\<close>

record File =
  file_name :: jsstring
  file_type :: jsstring
  readAsDataURL :: "thrown + jsstring"

text \<open>\<open>String.prototype.split\<close> at a one-character separator.\<close>

fun split :: "jschar \<Rightarrow> jsstring \<Rightarrow> jsstring list" where
  "split c [] = [[]]"
| "split c (x # xs) =
     (if x = c then [] # split c xs
      else (case split c xs of [] \<Rightarrow> [[x]] | p # ps \<Rightarrow> (x # p) # ps))"

text \<open>Reading index 1 of an array: \<open>undefined\<close> (here \<open>None\<close>) when the array is shorter.\<close>

fun index1 :: "'a list \<Rightarrow> 'a option" where
  "index1 (x # y # ys) = Some y"
| "index1 xs = None"

definition fileToBase64 :: "File \<Rightarrow> thrown + jsstring option" where
  "fileToBase64 file =
     (case readAsDataURL file of
        Inl err \<Rightarrow> Inl err
      | Inr result \<Rightarrow> Inr (index1 (split 0x002C result)))"

text \<open>The request sent to the service: the two content parts and the configuration.\<close>

datatype Schema =
    ARRAY Schema
  | OBJECT "(jsstring \<times> Schema) list" "jsstring list"
  | NUMBER jsstring
  | STRING jsstring

record inlineData =
  mimeType :: jsstring
  data :: "jsstring option"

record GenerateContentRequest =
  model :: jsstring
  audioPart :: inlineData
  textPart :: jsstring
  responseMimeType :: jsstring
  responseSchema :: Schema

text \<open>
  The two template literals of the prompt, line by line: a template literal is its lines
  joined by line feeds. The Japanese text is given by its code units.
\<close>

definition prompt_with_reference :: "jsstring \<Rightarrow> jsstring" where
  \<open>prompt_with_reference refText = join newline
     [[],
      ascii ''You are an expert audio transcriptionist specializing in Japanese. Your task is to transcribe the provided audio and generate accurate, synchronized subtitles.'',
      [],
      ascii ''**CRITICAL INSTRUCTION:** You have been given a reference text. You MUST use this text to ensure the transcription is as accurate as possible. Align the audio transcription with the provided text, correcting any misheard words, names, or phrases to match the reference text. The final transcription's wording MUST match the reference text.'',
      [],
      ascii ''--- REFERENCE TEXT START ---'',
      refText,
      ascii ''--- REFERENCE TEXT END ---'',
      [],
      ascii ''**OUTPUT FORMAT:**'',
      ascii ''The output must be a valid JSON array of objects. Each object represents a subtitle segment and must contain:'',
      ascii ''1. "start": The starting time of the segment in seconds (number).'',
      ascii ''2. "end": The ending time of the segment in seconds (number).'',
      ascii ''3. "text": The transcribed text for that segment (string), corrected according to the reference text.'',
      [],
      ascii ''**IMPORTANT EXAMPLE FORMAT:**'',
      ascii ''['',
      ascii ''  { "start": 0.52, "end": 2.88, "text": "'' @ [0x4EAC, 0x90FD, 0x3067, 0x3001, 0x5947, 0x8DE1, 0x304C, 0x8D77, 0x304D, 0x305F, 0x3002] @ ascii ''" },'',
      ascii ''  { "start": 3.1, "end": 5.4, "text": "'' @ [0x5929, 0x7687, 0x965B, 0x4E0B, 0x3068, 0x96C5, 0x5B50, 0x3055, 0x307E, 0x304C, 0x59FF, 0x3092, 0x73FE, 0x3057, 0x305F, 0x77AC, 0x9593, 0x3001, 0x96E8, 0x304C] @ ascii '' '' @ [0x6B62, 0x307E, 0x3063, 0x305F, 0x3002] @ ascii ''" }'',
      ascii '']'',
      ascii ''    '']\<close>

definition prompt_without_reference :: jsstring where
  \<open>prompt_without_reference = join newline
     [[],
      ascii ''      You are an expert audio transcriptionist, particularly for the Japanese language. Your task is to transcribe the provided audio file into text and provide accurate timestamps for each segment.'',
      ascii ''      The output must be a valid JSON array of objects.'',
      ascii ''      Each object in the array represents a single subtitle entry and must contain three properties:'',
      ascii ''      1. "start": The starting time of the segment in seconds (number).'',
      ascii ''      2. "end": The ending time of the segment in seconds (number).'',
      ascii ''      3. "text": The transcribed text for that segment (string).'',
      [],
      ascii ''      **IMPORTANT**: You must ensure the following names are transcribed correctly. Pay close attention to these specific names and correct any potential mis-transcriptions in the audio:'',
      ascii ''      - '' @ [0x79CB, 0x7BE0, 0x5BAE, 0x69D8],
      ascii ''      - '' @ [0x7D00, 0x5B50, 0x69D8],
      ascii ''      - '' @ [0x60A0, 0x4EC1, 0x69D8],
      ascii ''      - '' @ [0x4F73, 0x5B50, 0x69D8],
      ascii ''      - '' @ [0x771E, 0x5B50, 0x69D8],
      ascii ''      - '' @ [0x7F8E, 0x667A, 0x5B50, 0x69D8],
      ascii ''      - '' @ [0x96C5, 0x5B50, 0x69D8] @ ascii '' (This is the correct kanji for Empress Masako. Do NOT use "'' @ [0x6B63, 0x5B50, 0x69D8] @ ascii ''".)'',
      ascii ''      - '' @ [0x611B, 0x5B50, 0x69D8],
      ascii ''      - '' @ [0x5FB3, 0x4EC1, 0x5929, 0x7687],
      ascii ''      - '' @ [0x4E45, 0x5B50, 0x69D8],
      ascii ''      - '' @ [0x4FE1, 0x5B50, 0x69D8],
      [],
      ascii ''      Example format:'',
      ascii ''      ['',
      ascii ''        { "start": 0.52, "end": 2.88, "text": "Hello, and welcome to our podcast." },'',
      ascii ''        { "start": 3.1, "end": 5.4, "text": "Today we'll be discussing the future of AI." }'',
      ascii ''      ]'',
      ascii ''    '']\<close>

text \<open>
  \<open>if (referenceText)\<close>: \<open>null\<close> and the empty string are falsy, every other string is
  truthy.
\<close>

definition prompt_of :: "jsstring option \<Rightarrow> jsstring" where
  "prompt_of refText =
     (case refText of
        None \<Rightarrow> prompt_without_reference
      | Some r \<Rightarrow> if r \<noteq> [] then prompt_with_reference r else prompt_without_reference)"

definition transcription_schema :: Schema where
  "transcription_schema =
     ARRAY (OBJECT
       [(ascii ''start'', NUMBER (ascii ''The starting time of the segment in seconds.'')),
        (ascii ''end'', NUMBER (ascii ''The ending time of the segment in seconds.'')),
        (ascii ''text'', STRING (ascii ''The transcribed text of the segment.''))]
       [ascii ''start'', ascii ''end'', ascii ''text''])"

definition build_request :: "File \<Rightarrow> jsstring option \<Rightarrow> jsstring option \<Rightarrow> GenerateContentRequest" where
  "build_request file base64Audio refText =
     \<lparr>model = ascii ''gemini-2.5-pro'',
      audioPart = \<lparr>mimeType = file_type file, data = base64Audio\<rparr>,
      textPart = prompt_of refText,
      responseMimeType = ascii ''application/json'',
      responseSchema = transcription_schema\<rparr>"

text \<open>
  What \<open>JSON.parse\<close> returns. The service and \<open>JSON.parse\<close> are outside the repository
  and are parameters of the model: the service takes the request and throws or answers
  with a response whose \<open>text\<close> is a string or \<open>undefined\<close>; \<open>JSON.parse\<close> throws or
  returns a value.
\<close>

datatype json =
    JNull
  | JBool bool
  | JNumber number
  | JString jsstring
  | JArray "json list"
  | JObject "(jsstring \<times> json) list"

type_synonym service = "GenerateContentRequest \<Rightarrow> thrown + jsstring option"
type_synonym parser = "jsstring \<Rightarrow> thrown + json"

text \<open>
  \<open>JSON.parse\<close> converts its argument to a string first, so \<open>undefined\<close> is parsed as
  the text \<open>undefined\<close>.
\<close>

definition ToString :: "jsstring option \<Rightarrow> jsstring" where
  "ToString v = (case v of None \<Rightarrow> ascii ''undefined'' | Some t \<Rightarrow> t)"

definition Array_isArray :: "json \<Rightarrow> bool" where
  "Array_isArray v = (case v of JArray elems \<Rightarrow> True | _ \<Rightarrow> False)"

text \<open>
  The body of the \<open>try\<close> block: the call of the service, the parse, the check that the
  value is an array, the return of the array.
\<close>

definition try_block :: "service \<Rightarrow> parser \<Rightarrow> GenerateContentRequest \<Rightarrow> thrown + json list" where
  "try_block generateContent JSON_parse request =
     (case generateContent request of
        Inl err \<Rightarrow> Inl err
      | Inr jsonString \<Rightarrow>
          (case JSON_parse (ToString jsonString) of
             Inl err \<Rightarrow> Inl err
           | Inr transcriptionData \<Rightarrow>
               (case transcriptionData of
                  JArray elems \<Rightarrow> Inr elems
                | _ \<Rightarrow> Inl (Error (ascii ''API response is not a valid array.'')))))"

text \<open>The \<open>catch\<close> block: what is thrown to the caller for a value caught.\<close>

definition catch_block :: "thrown \<Rightarrow> thrown" where
  "catch_block err =
     (case err of
        Error m \<Rightarrow> Error (ascii ''Failed to generate transcription: '' @ m)
      | NonError \<Rightarrow> Error (ascii ''An unknown error occurred during transcription.''))"

text \<open>
  \<open>generateTranscription\<close> returns what the promise settles to, a thrown value or the
  elements of the array, together with the list of the requests it has sent to the
  service.
\<close>

definition generateTranscription ::
  "File \<Rightarrow> jsstring option \<Rightarrow> service \<Rightarrow> parser \<Rightarrow> (thrown + json list) \<times> GenerateContentRequest list"
where
  "generateTranscription file refText generateContent JSON_parse =
     (case fileToBase64 file of
        Inl err \<Rightarrow> (Inl err, [])
      | Inr base64Audio \<Rightarrow>
          (let request = build_request file base64Audio refText
           in (case try_block generateContent JSON_parse request of
                 Inl err \<Rightarrow> Inl (catch_block err)
               | Inr elems \<Rightarrow> Inr elems,
               [request])))"

section \<open>The caller (App.tsx)\<close>

text \<open>
  The cast \<open>as TranscriptionSegment[]\<close> checks nothing. The model follows the encoder on
  the elements that are objects with numbers \<open>start\<close> and \<open>end\<close> and a string \<open>text\<close>,
  whatever other properties they have; on other elements it says nothing (\<open>None\<close>).
\<close>

definition as_TranscriptionSegment :: "json \<Rightarrow> TranscriptionSegment option" where
  "as_TranscriptionSegment v =
     (case v of
        JObject props \<Rightarrow>
          (case (map_of props (ascii ''start''), map_of props (ascii ''end''),
                 map_of props (ascii ''text'')) of
             (Some (JNumber s), Some (JNumber e), Some (JString t)) \<Rightarrow>
               Some \<lparr>seg_start = s, seg_end = e, seg_text = t\<rparr>
           | _ \<Rightarrow> None)
      | _ \<Rightarrow> None)"

fun all_segments :: "json list \<Rightarrow> TranscriptionSegment list option" where
  "all_segments [] = Some []"
| "all_segments (v # vs) =
     (case as_TranscriptionSegment v of
        None \<Rightarrow> None
      | Some seg \<Rightarrow> (case all_segments vs of None \<Rightarrow> None | Some segs \<Rightarrow> Some (seg # segs)))"

record app_state =
  audioFile :: "File option"
  referenceText :: "jsstring option"
  srtContent :: jsstring
  isLoading :: bool
  error :: "jsstring option"

definition handleGenerateSrt :: "app_state \<Rightarrow> service \<Rightarrow> parser \<Rightarrow> app_state option" where
  "handleGenerateSrt st generateContent JSON_parse =
     (case audioFile st of
        None \<Rightarrow> Some st
      | Some file \<Rightarrow>
          (let st1 = st\<lparr>isLoading := True, error := None, srtContent := []\<rparr>
           in case fst (generateTranscription file (referenceText st) generateContent JSON_parse) of
                Inl err \<Rightarrow>
                  Some (st1\<lparr>error := Some (case err of
                                             Error m \<Rightarrow> m
                                           | NonError \<Rightarrow> ascii ''An unexpected error occurred.''),
                             isLoading := False\<rparr>)
              | Inr transcriptionResult \<Rightarrow>
                  (case all_segments transcriptionResult of
                     None \<Rightarrow> None
                   | Some segs \<Rightarrow> Some (st1\<lparr>srtContent := jsonToSrt segs, isLoading := False\<rparr>))))"

section \<open>The algorithm of the specification\<close>

text \<open>
  The timestamp as the specification words it, on the real \<open>s\<close>: \<open>mod\<close> is the remainder
  of the floored division and \<open>round\<close> is rounding to the nearest integer; the four
  components are padded and joined as \<open>HH:MM:SS,mmm\<close>.
\<close>

definition spec_mod :: "real \<Rightarrow> real \<Rightarrow> real" where
  "spec_mod x m = x - m * of_int \<lfloor>x / m\<rfloor>"

definition timestamp_of :: "int \<Rightarrow> int \<Rightarrow> int \<Rightarrow> int \<Rightarrow> jsstring" where
  "timestamp_of hours minutes secs millis =
     padStart 2 (digit_char 0) (toString (Finite hours)) @ ascii '':'' @
     padStart 2 (digit_char 0) (toString (Finite minutes)) @ ascii '':'' @
     padStart 2 (digit_char 0) (toString (Finite secs)) @ ascii '','' @
     padStart 3 (digit_char 0) (toString (Finite millis))"

definition format_timestamp_exact :: "real \<Rightarrow> jsstring" where
  "format_timestamp_exact s =
     (let hours = \<lfloor>s / 3600\<rfloor>;
          minutes = \<lfloor>spec_mod s 3600 / 60\<rfloor>;
          secs = \<lfloor>spec_mod s 60\<rfloor>;
          millis = round ((s - of_int \<lfloor>s\<rfloor>) * 1000)
      in timestamp_of hours minutes secs millis)"

text \<open>
  The same algorithm in double precision: the two quotients, the difference and the
  product are rounded to the nearest double before \<open>floor\<close> and \<open>round\<close> are taken.
\<close>

definition format_timestamp_spec :: "real \<Rightarrow> jsstring" where
  "format_timestamp_spec s =
     (let hours = \<lfloor>nearest_double (s / 3600)\<rfloor>;
          minutes = \<lfloor>nearest_double (spec_mod s 3600 / 60)\<rfloor>;
          secs = \<lfloor>spec_mod s 60\<rfloor>;
          millis = round (nearest_double (nearest_double (s - of_int \<lfloor>s\<rfloor>) * 1000))
      in timestamp_of hours minutes secs millis)"

text \<open>
  The document as the specification words it: the entry at position \<open>i\<close> is three lines,
  the index \<open>i + 1\<close>, the time range and the trimmed text, each ended by a line feed;
  consecutive entries are separated by one blank line, and nothing follows the last entry.
\<close>

definition entry_lines :: "'a TranscriptionSegment_scheme \<Rightarrow> nat \<Rightarrow> jsstring list" where
  "entry_lines seg i =
     [toString (Finite (int i + 1)),
      formatTime (seg_start seg) @ ascii '' --> '' @ formatTime (seg_end seg),
      trim (seg_text seg)]"

definition entry_spec :: "'a TranscriptionSegment_scheme \<Rightarrow> nat \<Rightarrow> jsstring" where
  "entry_spec seg i = concat (map (\<lambda>l. l @ newline) (entry_lines seg i))"

fun encode_from :: "nat \<Rightarrow> 'a TranscriptionSegment_scheme list \<Rightarrow> jsstring" where
  "encode_from i [] = []"
| "encode_from i [seg] = entry_spec seg i"
| "encode_from i (seg # seg' # segs) =
     entry_spec seg i @ newline @ encode_from (Suc i) (seg' # segs)"

definition encode_spec :: "'a TranscriptionSegment_scheme list \<Rightarrow> jsstring" where
  "encode_spec segs = encode_from 0 segs"

text \<open>What follows the index line of a block: it is made of the three fields only.\<close>

definition block_body :: "number \<Rightarrow> number \<Rightarrow> jsstring \<Rightarrow> jsstring" where
  "block_body s e t = formatTime s @ ascii '' --> '' @ formatTime e @ newline @ trim t @ newline"

text \<open>
  The delimiter markers of the reference text, and the proper-noun spellings that the
  prompt without reference text lists.
\<close>

definition reference_start_marker :: jsstring where
  "reference_start_marker = ascii ''--- REFERENCE TEXT START ---''"

definition reference_end_marker :: jsstring where
  "reference_end_marker = ascii ''--- REFERENCE TEXT END ---''"

definition proper_nouns :: "jsstring list" where
  "proper_nouns =
     [[0x79CB, 0x7BE0, 0x5BAE, 0x69D8],
      [0x7D00, 0x5B50, 0x69D8],
      [0x60A0, 0x4EC1, 0x69D8],
      [0x4F73, 0x5B50, 0x69D8],
      [0x771E, 0x5B50, 0x69D8],
      [0x7F8E, 0x667A, 0x5B50, 0x69D8],
      [0x96C5, 0x5B50, 0x69D8],
      [0x611B, 0x5B50, 0x69D8],
      [0x5FB3, 0x4EC1, 0x5929, 0x7687],
      [0x4E45, 0x5B50, 0x69D8],
      [0x4FE1, 0x5B50, 0x69D8]]"

section \<open>Example inputs\<close>

text \<open>An audio file whose data URL is read without error.\<close>

definition example_file :: File where
  "example_file =
     \<lparr>file_name = ascii ''a.mp3'', file_type = ascii ''audio/mpeg'',
      readAsDataURL = Inr (ascii ''data:audio/mpeg;base64,AAAA'')\<rparr>"

text \<open>The state of the application with this file selected and an older document shown.\<close>

definition example_state :: app_state where
  "example_state =
     \<lparr>audioFile = Some example_file, referenceText = None, srtContent = ascii ''old'',
      isLoading = False, error = None\<rparr>"

text \<open>A reply of the service that is an array of one segment.\<close>

definition example_reply :: json where
  "example_reply =
     JArray [JObject [(ascii ''start'', JNumber (Finite 0.5)),
                      (ascii ''end'', JNumber (Finite 2.75)),
                      (ascii ''text'', JString (ascii '' Hello ''))]]"

section \<open>Evaluation lemmas\<close>

lemma digits_lt10: "n < 10 \<Longrightarrow> digits n = [digit_char n]"
  by (simp add: digits.simps)

lemma digits_ge10: "\<not> n < 10 \<Longrightarrow> digits n = digits (n div 10) @ [digit_char (n mod 10)]"
  by (subst digits.simps) simp

lemma replicate_numeral_Cons: "replicate (numeral k) c = c # replicate (pred_numeral k) c"
  by (simp add: numeral_eq_Suc)

lemma exponent_up_numeral:
  "exponent_up (numeral k) x =
     (if 2 \<le> x then Suc (exponent_up (pred_numeral k) (x / 2)) else 0)"
  by (simp add: numeral_eq_Suc)

lemma exponent_down_numeral:
  "exponent_down (numeral k) x =
     (if x < 1 then Suc (exponent_down (pred_numeral k) (2 * x)) else 0)"
  by (simp add: numeral_eq_Suc)

lemmas double_eval =
  round_double_def nearest_double_def round_half_even_def exponent_def pow2_def Let_def
  exponent_up_numeral exponent_down_numeral

lemmas formatTime_eval =
  formatTime_def Math_floor_def Math_round_def to_number_def js_div_def js_mul_def js_rem_def
  js_trunc_def toString_def nat_toString_def padStart_def digits_lt10 digits_ge10
  digit_char_def ascii_def replicate_numeral_Cons double_eval

section \<open>Rounding to a double\<close>

lemma pow2_pos: "0 < pow2 e"
  by (simp add: pow2_def)

lemma exponent_up_le: "1 \<le> x \<Longrightarrow> 2 ^ exponent_up n x \<le> x"
proof (induction n arbitrary: x)
  case 0
  then show ?case by simp
next
  case (Suc n)
  show ?case
  proof (cases "2 \<le> x")
    case True
    then have "2 ^ exponent_up n (x / 2) \<le> x / 2" by (intro Suc.IH) simp
    with True show ?thesis by simp
  next
    case False
    with Suc.prems show ?thesis by simp
  qed
qed

lemma pow2_exponent_le:
  assumes "0 < x"
  shows "pow2 (exponent x - 52) \<le> max 1 x"
proof (cases "1 \<le> x")
  case True
  let ?k = "exponent_up 1024 x"
  have "pow2 (int ?k - 52) \<le> 2 ^ ?k"
  proof (cases "52 \<le> ?k")
    case True
    then have "pow2 (int ?k - 52) = 2 ^ (?k - 52)"
      by (simp add: pow2_def nat_diff_distrib')
    also have "\<dots> \<le> 2 ^ ?k" by (rule power_increasing) simp_all
    finally show ?thesis .
  next
    case False
    then have "pow2 (int ?k - 52) = 1 / 2 ^ nat (52 - int ?k)"
      by (simp add: pow2_def)
    also have "\<dots> \<le> 1" by simp
    also have "\<dots> \<le> 2 ^ ?k" by simp
    finally show ?thesis .
  qed
  also have "\<dots> \<le> x" using True by (rule exponent_up_le)
  finally show ?thesis using True by (simp add: exponent_def)
next
  case False
  then have "pow2 (exponent x - 52) = 1 / 2 ^ nat (int (exponent_down 1022 x) + 52)"
    by (simp add: exponent_def pow2_def)
  also have "\<dots> \<le> 1" by simp
  finally show ?thesis by simp
qed

lemma round_half_even_le: "of_int (round_half_even m) \<le> m + 1 / 2"
  by (simp add: round_half_even_def Let_def; linarith?)

lemma round_half_even_nonneg: "0 \<le> m \<Longrightarrow> 0 \<le> round_half_even m"
  by (simp add: round_half_even_def Let_def; linarith?)

lemma nearest_double_nonneg:
  assumes "0 \<le> x"
  shows "0 \<le> nearest_double x"
proof (cases "x = 0")
  case True
  then show ?thesis by (simp add: nearest_double_def)
next
  case False
  with assms have "0 < x" by simp
  then have "0 \<le> x / pow2 (exponent x - 52)" using pow2_pos [of "exponent x - 52"] by simp
  then have "0 \<le> round_half_even (x / pow2 (exponent x - 52))"
    by (rule round_half_even_nonneg)
  with \<open>0 < x\<close> pow2_pos [of "exponent x - 52"] show ?thesis
    by (simp add: nearest_double_def Let_def)
qed

lemma nearest_double_le:
  assumes "0 \<le> x"
  shows "nearest_double x \<le> 2 * x + 1"
proof (cases "x = 0")
  case True
  then show ?thesis by (simp add: nearest_double_def)
next
  case False
  with assms have pos: "0 < x" by simp
  let ?q = "pow2 (exponent x - 52)"
  have q: "0 < ?q" by (rule pow2_pos)
  have "of_int (round_half_even (x / ?q)) * ?q \<le> (x / ?q + 1 / 2) * ?q"
    using round_half_even_le [of "x / ?q"] q by (intro mult_right_mono) simp_all
  also have "\<dots> = x + ?q / 2" using q by (simp add: field_simps)
  also have "\<dots> \<le> x + max 1 x / 2" using pow2_exponent_le [OF pos] by simp
  also have "\<dots> \<le> 2 * x + 1" using pos by simp
  finally show ?thesis using pos by (simp add: nearest_double_def Let_def)
qed

lemma round_double_finite:
  assumes "0 \<le> x" and "x \<le> 2 ^ 1022"
  shows "round_double x = Finite (nearest_double x)"
proof -
  have "nearest_double x \<le> 2 * x + 1" using assms(1) by (rule nearest_double_le)
  also have "\<dots> \<le> 2 * 2 ^ 1022 + 1" using assms(2) by simp
  also have "\<dots> < (2 :: real) ^ 1024" by simp
  finally have "nearest_double x < 2 ^ 1024" .
  moreover have "- (2 ^ 1024) < nearest_double x"
    using nearest_double_nonneg [OF assms(1)] by (simp add: less_le_trans [of _ 0])
  ultimately show ?thesis by (simp add: round_double_def Let_def)
qed

lemma exponent_up_bounds:
  "1 \<le> x \<Longrightarrow> x < 2 ^ Suc n \<Longrightarrow> 2 ^ exponent_up n x \<le> x \<and> x < 2 * 2 ^ exponent_up n x"
proof (induction n arbitrary: x)
  case 0
  then show ?case by simp
next
  case (Suc n)
  show ?case
  proof (cases "2 \<le> x")
    case True
    with Suc.prems have "1 \<le> x / 2" "x / 2 < 2 ^ Suc n" by simp_all
    then have "2 ^ exponent_up n (x / 2) \<le> x / 2 \<and> x / 2 < 2 * 2 ^ exponent_up n (x / 2)"
      by (rule Suc.IH)
    with True show ?thesis by simp
  next
    case False
    with Suc.prems show ?thesis by simp
  qed
qed

lemma exponent_down_bounds:
  "0 < x \<Longrightarrow> x < 1 \<Longrightarrow> 1 \<le> x * 2 ^ n \<Longrightarrow>
     1 \<le> x * 2 ^ exponent_down n x \<and> x * 2 ^ exponent_down n x < 2"
proof (induction n arbitrary: x)
  case 0
  then show ?case by simp
next
  case (Suc n)
  show ?case
  proof (cases "2 * x < 1")
    case True
    with Suc.prems have "0 < 2 * x" "2 * x < 1" "1 \<le> 2 * x * 2 ^ n"
      by (simp_all add: mult.assoc mult.left_commute)
    then have "1 \<le> 2 * x * 2 ^ exponent_down n (2 * x) \<and>
        2 * x * 2 ^ exponent_down n (2 * x) < 2"
      by (rule Suc.IH)
    with Suc.prems show ?thesis by (simp add: mult.assoc mult.left_commute)
  next
    case False
    then have "exponent_down n (2 * x) = 0" by (cases n) simp_all
    with False Suc.prems show ?thesis by simp
  qed
qed

lemma exponent_down_subnormal:
  "0 < x \<Longrightarrow> x * 2 ^ n < 1 \<Longrightarrow> exponent_down n x = n"
proof (induction n arbitrary: x)
  case 0
  then show ?case by simp
next
  case (Suc n)
  have "1 \<le> (2 :: real) ^ Suc n" by (rule one_le_power) simp
  with Suc.prems have "x < 1"
    by (smt (verit) mult_le_cancel_left1)
  moreover from Suc.prems have "exponent_down n (2 * x) = n"
    by (intro Suc.IH) (simp_all add: mult.assoc mult.left_commute)
  ultimately show ?case by simp
qed

text \<open>
  The exponent of a positive real in the range of the normal doubles is that of its
  binade, and that of a smaller one is \<open>-1022\<close>.
\<close>

lemma exponent_bounds:
  assumes "pow2 (- 1022) \<le> x" and "x < 2 ^ 1025"
  shows "pow2 (exponent x) \<le> x \<and> x < pow2 (exponent x + 1)"
proof (cases "1 \<le> x")
  case True
  with assms(2) have "2 ^ exponent_up 1024 x \<le> x \<and> x < 2 * 2 ^ exponent_up 1024 x"
    by (intro exponent_up_bounds) simp_all
  with True show ?thesis by (simp add: exponent_def pow2_def nat_add_distrib)
next
  case False
  have pos: "0 < x" using assms(1) pow2_pos [of "- 1022"] by simp
  from assms(1) have "1 \<le> x * 2 ^ 1022" by (simp add: pow2_def field_simps)
  with pos False
  have b: "1 \<le> x * 2 ^ exponent_down 1022 x \<and> x * 2 ^ exponent_down 1022 x < 2"
    by (intro exponent_down_bounds) simp_all
  let ?d = "exponent_down 1022 x"
  have d: "0 < ?d" using b False by (cases "?d = 0") simp_all
  have "pow2 (- int ?d) = 1 / 2 ^ ?d" by (simp add: pow2_def)
  moreover have "pow2 (- int ?d + 1) = 2 / 2 ^ ?d"
  proof -
    from d obtain k where k: "?d = Suc k" by (cases ?d) simp_all
    then have "- int ?d + 1 = - int k" by simp
    then have "pow2 (- int ?d + 1) = 1 / 2 ^ k" by (simp add: pow2_def)
    with k show ?thesis by simp
  qed
  moreover have "1 / 2 ^ ?d \<le> x" using b by (simp add: pos_divide_le_eq)
  moreover have "x < 2 / 2 ^ ?d" using b by (simp add: pos_less_divide_eq)
  moreover have "exponent x = - int ?d" using False by (simp add: exponent_def)
  ultimately show ?thesis by (simp only:)
qed

lemma exponent_subnormal:
  assumes "0 < x" and "x < pow2 (- 1022)"
  shows "exponent x = - 1022"
proof -
  from assms(2) have "x * 2 ^ 1022 < 1" by (simp add: pow2_def field_simps)
  with assms(1) have "exponent_down 1022 x = 1022" by (rule exponent_down_subnormal)
  moreover from assms(2) have "x < 1" by (simp add: pow2_def)
  ultimately show ?thesis by (simp add: exponent_def)
qed

lemma round_half_even_error: "\<bar>of_int (round_half_even m) - m\<bar> \<le> 1 / 2"
  by (simp add: round_half_even_def Let_def; linarith?)

text \<open>The rounded value is a multiple of the spacing and at most half a spacing away.\<close>

lemma nearest_double_error:
  "\<bar>nearest_double x - x\<bar> \<le> pow2 (exponent \<bar>x\<bar> - 52) / 2"
proof (cases "x = 0")
  case True
  then show ?thesis using pow2_pos [of "exponent \<bar>x\<bar> - 52"] by (simp add: nearest_double_def)
next
  case False
  let ?q = "pow2 (exponent \<bar>x\<bar> - 52)"
  have q: "0 < ?q" by (rule pow2_pos)
  have "of_int (round_half_even (\<bar>x\<bar> / ?q)) * ?q - \<bar>x\<bar> =
        (of_int (round_half_even (\<bar>x\<bar> / ?q)) - \<bar>x\<bar> / ?q) * ?q"
    using q by (simp add: left_diff_distrib)
  then have "\<bar>of_int (round_half_even (\<bar>x\<bar> / ?q)) * ?q - \<bar>x\<bar>\<bar> =
        \<bar>of_int (round_half_even (\<bar>x\<bar> / ?q)) - \<bar>x\<bar> / ?q\<bar> * ?q"
    using q by (metis abs_mult abs_of_pos)
  also have "\<dots> \<le> 1 / 2 * ?q"
    using q round_half_even_error [of "\<bar>x\<bar> / ?q"] by (intro mult_right_mono) simp_all
  finally have "\<bar>of_int (round_half_even (\<bar>x\<bar> / ?q)) * ?q - \<bar>x\<bar>\<bar> \<le> ?q / 2" by simp
  with False show ?thesis by (simp add: nearest_double_def Let_def abs_if split: if_splits)
qed

section \<open>Timestamps\<close>

lemma spec_mod_bounds:
  assumes "0 < m"
  shows "0 \<le> spec_mod x m" and "spec_mod x m < m"
proof -
  have "m * of_int \<lfloor>x / m\<rfloor> \<le> m * (x / m)"
    using assms by (intro mult_left_mono) simp_all
  then show "0 \<le> spec_mod x m" using assms by (simp add: spec_mod_def)
  have "x / m < of_int \<lfloor>x / m\<rfloor> + 1" by linarith
  then have "m * (x / m) < m * (of_int \<lfloor>x / m\<rfloor> + 1)"
    using assms by (intro mult_strict_left_mono) simp_all
  then show "spec_mod x m < m" using assms by (simp add: spec_mod_def algebra_simps)
qed

lemma js_rem_spec_mod:
  assumes "0 \<le> x" and "0 < c"
  shows "js_rem (Finite x) c = Finite (spec_mod x c)"
proof -
  from assms have "0 \<le> x / c" by simp
  then show ?thesis by (simp add: js_rem_def js_trunc_def spec_mod_def)
qed

lemma js_div_finite:
  assumes "0 \<le> x" and "x \<le> 2 ^ 1024" and "4 \<le> c"
  shows "js_div (Finite x) c = Finite (nearest_double (x / c))"
proof -
  have "x / c \<le> x / 4" using assms by (intro divide_left_mono) simp_all
  also have "\<dots> \<le> 2 ^ 1024 / 4" using assms(2) by simp
  also have "\<dots> = (2 :: real) ^ 1022" by simp
  finally have "x / c \<le> 2 ^ 1022" .
  moreover have "0 \<le> x / c" using assms by simp
  ultimately show ?thesis by (simp add: js_div_def round_double_finite)
qed

lemma fraction_bounds: "0 \<le> s - of_int \<lfloor>s\<rfloor>" "s - of_int \<lfloor>s\<rfloor> < (1 :: real)"
  by linarith+

lemma millis_finite:
  "js_mul (js_sub (Finite s) (to_number (Math_floor (Finite s)))) 1000 =
     Finite (nearest_double (nearest_double (s - of_int \<lfloor>s\<rfloor>) * 1000))"
proof -
  let ?f = "s - of_int \<lfloor>s\<rfloor>"
  have f: "0 \<le> ?f" "?f < 1" by (rule fraction_bounds)+
  then have "?f \<le> 2 ^ 1022" by (simp add: order_trans [of _ 1])
  with f have sub: "round_double ?f = Finite (nearest_double ?f)"
    by (simp add: round_double_finite)
  have "0 \<le> nearest_double ?f" using f(1) by (rule nearest_double_nonneg)
  moreover have "nearest_double ?f \<le> 3"
    using nearest_double_le [OF f(1)] f(2) by simp
  then have "nearest_double ?f * 1000 \<le> 2 ^ 1022"
    by (simp add: order_trans [of _ 3000])
  ultimately have "round_double (nearest_double ?f * 1000) =
      Finite (nearest_double (nearest_double ?f * 1000))"
    by (simp add: round_double_finite)
  with sub show ?thesis by (simp add: js_mul_def to_number_def Math_floor_def)
qed

lemma formatTime_spec:
  assumes "0 \<le> s" and "s < 2 ^ 1024"
  shows "formatTime (Finite s) = format_timestamp_spec s"
proof -
  have hours: "js_div (Finite s) 3600 = Finite (nearest_double (s / 3600))"
    using assms by (simp add: js_div_finite)
  have "0 \<le> spec_mod s 3600" "spec_mod s 3600 < 3600"
    by (simp_all add: spec_mod_bounds)
  then have minutes: "js_div (js_rem (Finite s) 3600) 60 =
      Finite (nearest_double (spec_mod s 3600 / 60))"
    using assms(1) by (simp add: js_rem_spec_mod js_div_finite order_trans [of _ 3600])
  have seconds: "js_rem (Finite s) 60 = Finite (spec_mod s 60)"
    using assms(1) by (simp add: js_rem_spec_mod)
  show ?thesis
    by (simp add: formatTime_def format_timestamp_spec_def timestamp_of_def hours minutes
        seconds millis_finite Let_def)
       (simp add: Math_floor_def Math_round_def round_def)
qed

lemma formatTime_zero: "formatTime (Finite 0) = ascii ''00:00:00,000''"
  by (simp add: formatTime_eval)

lemma formatTime_3661_5: "formatTime (Finite 3661.5) = ascii ''01:01:01,500''"
  by (simp add: formatTime_eval)

lemma formatTime_7322_25: "formatTime (Finite 7322.25) = ascii ''02:02:02,250''"
  by (simp add: formatTime_eval)

text \<open>
  C1 (amended). For every non-negative finite number of seconds, \<open>formatTime\<close> is the
  timestamp of the specification's algorithm carried out in double precision: hours,
  minutes and seconds by floored division and remainder, milliseconds by rounding the
  fractional part times 1000, where the two quotients, the difference and the product are
  rounded to the nearest double first; the four components are joined as \<open>HH:MM:SS,mmm\<close>.
  At 0 it is \<open>00:00:00,000\<close> and at 3661.5 it is \<open>01:01:01,500\<close>.
\<close>

theorem formatTime_algorithm:
  "0 \<le> s \<Longrightarrow> s < 2 ^ 1024 \<Longrightarrow>
     formatTime (Finite s) = format_timestamp_spec s \<and>
     formatTime (Finite 0) = ascii ''00:00:00,000'' \<and>
     formatTime (Finite 3661.5) = ascii ''01:01:01,500''"
  by (simp only: formatTime_spec formatTime_zero formatTime_3661_5 simp_thms)

theorem formatTime_algorithm_witness:
  "(0::real) \<le> 7322.25 \<and> (7322.25::real) < 2 ^ 1024 \<and>
   format_timestamp_spec 7322.25 = ascii ''02:02:02,250''"
proof -
  have nonneg: "(0::real) \<le> 7322.25" by simp
  have finite: "(7322.25::real) < 2 ^ 1024" by simp
  have "formatTime (Finite 7322.25) = format_timestamp_spec 7322.25"
    using formatTime_algorithm [OF nonneg finite] by simp
  with formatTime_7322_25 nonneg finite show ?thesis by simp
qed

lemma literal_0_0045: "round_double 0.0045 = Finite (5188146770730811 / 2 ^ 60)"
  by (simp add: double_eval)

lemma formatTime_0_0045:
  "formatTime (Finite (5188146770730811 / 2 ^ 60)) = ascii ''00:00:00,005''"
  by (simp add: formatTime_eval)

lemma format_timestamp_exact_0_0045:
  "format_timestamp_exact (5188146770730811 / 2 ^ 60) = ascii ''00:00:00,004''"
  by (simp add: format_timestamp_exact_def timestamp_of_def spec_mod_def round_def toString_def
      nat_toString_def padStart_def digits_lt10 digits_ge10 digit_char_def ascii_def
      replicate_numeral_Cons Let_def)

text \<open>
  C1 as stated, with the algorithm on the real number of seconds, fails: the double
  written \<open>0.0045\<close> is a little below 0.0045, so that its fractional part times 1000 is
  below 4.5 and rounds to 4; in double precision the product is 4.5, which
  \<open>Math.round\<close> rounds to 5.
\<close>

theorem formatTime_not_exact_algorithm:
  "formatTime (Finite (5188146770730811 / 2 ^ 60)) \<noteq>
     format_timestamp_exact (5188146770730811 / 2 ^ 60) \<and>
   formatTime (Finite (5188146770730811 / 2 ^ 60)) = ascii ''00:00:00,005'' \<and>
   format_timestamp_exact (5188146770730811 / 2 ^ 60) = ascii ''00:00:00,004'' \<and>
   round_double 0.0045 = Finite (5188146770730811 / 2 ^ 60)"
proof -
  have "ascii ''00:00:00,005'' \<noteq> ascii ''00:00:00,004''" by (simp add: ascii_def)
  then show ?thesis
    by (simp only: formatTime_0_0045 format_timestamp_exact_0_0045 literal_0_0045 simp_thms)
qed

lemma literal_0_9996: "round_double 0.9996 = Finite (1125449546879887 / 2 ^ 50)"
  by (simp add: double_eval)

text \<open>
  C2 (the code departs from the claim). The millisecond field is not always three
  digits: at the double written \<open>0.9996\<close> the fractional part times 1000 is 999.6, which
  rounds to 1000, and \<open>padStart\<close> leaves the four digits as they are; the seconds field
  is not carried.
\<close>

theorem formatTime_millis_four_digits:
  "formatTime (round_double 0.9996) = ascii ''00:00:00,1000''"
  by (simp add: literal_0_9996) (simp add: formatTime_eval)

text \<open>
  Beyond the finite numbers below \<open>2^53\<close> hours: an hour count that is printed as the
  shortest decimal, and the numbers that are not finite.
\<close>

lemma log2_floor_lt2: "n < 2 \<Longrightarrow> log2_floor n = 0"
  by (simp add: log2_floor.simps)

lemma log2_floor_ge2: "\<not> n < 2 \<Longrightarrow> log2_floor n = Suc (log2_floor (n div 2))"
  by (subst log2_floor.simps) simp

lemma log2_floor_example: "log2_floor 277777777777777792 = 57"
  by (simp add: log2_floor_lt2 log2_floor_ge2)

lemma digits_length_example: "length (digits 277777777777777792) - Suc 0 = 17"
  by (simp add: digits_lt10 digits_ge10)

lemma shortest_from_numeral:
  "shortest_from (numeral k) x =
     (case shortest_candidate x (numeral k) of
        Some v \<Rightarrow> v
      | None \<Rightarrow> shortest_from (pred_numeral k) x)"
  by (simp add: numeral_eq_Suc)

lemma shortest_decimal_example: "shortest_decimal 277777777777777792 = 277777777777777800"
  by (simp add: shortest_decimal_def digits_length_example shortest_from_numeral
      shortest_candidate_def log2_floor_example Let_def)

lemma formatTime_1e21:
  "formatTime (Finite (10 ^ 21)) = ascii ''277777777777777800:46:40,000''"
  by (simp add: formatTime_eval shortest_decimal_example)

text \<open>
  The quotient by 3600 is rounded too: just below a multiple of 3600 that is no double,
  the hour count of the code is one more than that of the algorithm on the real.
\<close>

lemma formatTime_hours_rounded:
  "formatTime (Finite 253327479039593984) = ascii ''70368744177665:59:44,000''"
  "format_timestamp_exact 253327479039593984 = ascii ''70368744177664:59:44,000''"
  by (simp_all add: formatTime_eval format_timestamp_exact_def timestamp_of_def spec_mod_def
      round_def)

lemma formatTime_not_finite:
  "formatTime NaN = ascii ''NaN:NaN:NaN,NaN''"
  "formatTime PosInf = ascii ''Infinity:NaN:NaN,NaN''"
  "formatTime NegInf = ascii ''-Infinity:NaN:NaN,NaN''"
  by (simp_all add: formatTime_def Math_floor_def Math_round_def to_number_def js_div_def
      js_mul_def js_rem_def toString_def padStart_def ascii_def)

section \<open>The SRT document\<close>

lemma srt_block_entry_spec: "srt_block seg i = entry_spec seg i"
  by (simp add: srt_block_def entry_spec_def entry_lines_def Let_def)

lemma join_map_from_encode: "join newline (map_from i srt_block segs) = encode_from i segs"
  by (induction i segs rule: encode_from.induct) (simp_all add: srt_block_entry_spec)

lemma join_snoc: "join sep (xs @ [x]) = (if xs = [] then x else join sep xs @ sep @ x)"
  by (induction sep xs rule: join.induct) simp_all

lemma map_from_snoc: "map_from i f (xs @ [x]) = map_from i f xs @ [f x (i + length xs)]"
  by (induction xs arbitrary: i) simp_all

lemma map_from_Nil_iff: "map_from i f xs = [] \<longleftrightarrow> xs = []"
  by (cases xs) simp_all

lemma jsonToSrt_snoc:
  "jsonToSrt (segs @ [seg]) =
     (if segs = [] then [] else jsonToSrt segs @ newline) @ entry_spec seg (length segs)"
  by (simp add: jsonToSrt_def Array_map_def map_from_snoc join_snoc map_from_Nil_iff
      srt_block_entry_spec)

text \<open>
  C3. \<open>jsonToSrt\<close> is the document of the specification: for the segment at position
  \<open>i\<close> the index \<open>i + 1\<close>, the line of the two timestamps and the trimmed text, each on
  its own line, with one blank line between consecutive entries. The document of the
  empty sequence is empty, and a non-empty document ends with its last entry: nothing
  follows the line feed that ends the last text line.
\<close>

theorem jsonToSrt_encode_spec:
  "jsonToSrt segs = encode_spec segs \<and>
   jsonToSrt ([] :: 'a TranscriptionSegment_scheme list) = [] \<and>
   jsonToSrt (segs @ [seg]) =
     (if segs = [] then [] else jsonToSrt segs @ newline) @ entry_spec seg (length segs)"
proof (intro conjI)
  show "jsonToSrt segs = encode_spec segs"
    by (simp add: jsonToSrt_def Array_map_def join_map_from_encode encode_spec_def)
  show "jsonToSrt ([] :: 'a TranscriptionSegment_scheme list) = []"
    by (simp add: jsonToSrt_def Array_map_def)
  show "jsonToSrt (segs @ [seg]) =
     (if segs = [] then [] else jsonToSrt segs @ newline) @ entry_spec seg (length segs)"
    by (rule jsonToSrt_snoc)
qed

lemma map_from_upt: "map_from i f xs = map (\<lambda>k. f (xs ! k) (i + k)) [0..<length xs]"
proof (induction xs arbitrary: i)
  case Nil
  show ?case by simp
next
  case (Cons x xs)
  have "[0..<length (x # xs)] = 0 # map Suc [0..<length xs]"
    by (simp add: upt_conv_Cons map_Suc_upt del: upt_Suc)
  then show ?case by (simp add: Cons.IH comp_def)
qed

lemma map_from_map: "map_from i f (map g xs) = map_from i (\<lambda>x k. f (g x) k) xs"
  by (induction xs arbitrary: i) simp_all

lemma srt_block_body:
  "srt_block seg i =
     toString (Finite (int i + 1)) @ newline @
       block_body (seg_start seg) (seg_end seg) (seg_text seg)"
  by (simp add: srt_block_def block_body_def Let_def)

lemma srt_block_truncate: "srt_block (TranscriptionSegment.truncate seg) i = srt_block seg i"
  by (simp add: srt_block_def TranscriptionSegment.truncate_def)

text \<open>
  C4. The blocks of the document are those of the positions \<open>0, 1, ...\<close> in this order;
  the block of position \<open>i\<close> starts with the index \<open>i + 1\<close> and is made of the start, end
  and text of the segment at position \<open>i\<close>. Properties of a segment other than these
  three do not change the document.
\<close>

theorem jsonToSrt_index_order:
  "jsonToSrt segs =
     join newline (map (\<lambda>i. toString (Finite (int i + 1)) @ newline @
        block_body (seg_start (segs ! i)) (seg_end (segs ! i)) (seg_text (segs ! i)))
       [0..<length segs]) \<and>
   jsonToSrt (map TranscriptionSegment.truncate segs) = jsonToSrt segs"
proof
  show "jsonToSrt segs =
     join newline (map (\<lambda>i. toString (Finite (int i + 1)) @ newline @
        block_body (seg_start (segs ! i)) (seg_end (segs ! i)) (seg_text (segs ! i)))
       [0..<length segs])"
    by (simp add: jsonToSrt_def Array_map_def map_from_upt srt_block_body)
  show "jsonToSrt (map TranscriptionSegment.truncate segs) = jsonToSrt segs"
    by (simp add: jsonToSrt_def Array_map_def map_from_map srt_block_truncate)
qed

lemma dropWhile_rev_dropWhile:
  "dropWhile P (rev (dropWhile P (rev (dropWhile P s)))) = rev (dropWhile P (rev (dropWhile P s)))"
proof -
  let ?t = "dropWhile P s"
  let ?u = "rev (dropWhile P (rev ?t))"
  show "dropWhile P ?u = ?u"
  proof (cases "?u = []")
    case True
    then show ?thesis by (simp only: dropWhile.simps)
  next
    case False
    have split: "?t = ?u @ rev (takeWhile P (rev ?t))"
      by (metis rev_append rev_rev_ident takeWhile_dropWhile_id)
    from False split have "hd ?u = hd ?t" by (metis hd_append2)
    moreover from False split have "?t \<noteq> []" by (metis append_is_Nil_conv)
    then have "\<not> P (hd ?t)" by (rule hd_dropWhile)
    ultimately have "\<not> P (hd ?u)" by simp
    with False show ?thesis by (cases ?u) simp_all
  qed
qed

lemma trim_idem: "trim (trim s) = trim s"
  by (simp add: trim_def dropWhile_rev_dropWhile)

lemma srt_block_trim: "srt_block (seg\<lparr>seg_text := trim (seg_text seg)\<rparr>) i = srt_block seg i"
  by (simp add: srt_block_def trim_idem)

text \<open>
  C5. Trimming the text of every segment before encoding does not change the document.
\<close>

theorem jsonToSrt_trim_before:
  "jsonToSrt (map (\<lambda>seg. seg\<lparr>seg_text := trim (seg_text seg)\<rparr>) segs) = jsonToSrt segs"
  by (simp add: jsonToSrt_def Array_map_def map_from_map srt_block_trim)

section \<open>The prompt\<close>

lemma join_append:
  "xs \<noteq> [] \<Longrightarrow> ys \<noteq> [] \<Longrightarrow> join sep (xs @ ys) = join sep xs @ sep @ join sep ys"
  by (induction sep xs rule: join.induct) (auto simp: neq_Nil_conv)

lemma join_context:
  "\<exists>ps ss. join sep (xs @ ys @ zs) = ps @ join sep ys @ ss"
proof (cases "ys = []")
  case True
  have "join sep (xs @ ys @ zs) = [] @ join sep ys @ join sep (xs @ zs)"
    using True by simp
  then show ?thesis by blast
next
  case ys: False
  show ?thesis
  proof (cases "xs = []")
    case xs: True
    show ?thesis
    proof (cases "zs = []")
      case True
      with xs have "join sep (xs @ ys @ zs) = [] @ join sep ys @ []" by simp
      then show ?thesis by blast
    next
      case False
      with xs ys have "join sep (xs @ ys @ zs) = [] @ join sep ys @ (sep @ join sep zs)"
        by (simp add: join_append)
      then show ?thesis by blast
    qed
  next
    case xs: False
    show ?thesis
    proof (cases "zs = []")
      case True
      with xs ys have "join sep (xs @ ys @ zs) = (join sep xs @ sep) @ join sep ys @ []"
        by (simp add: join_append)
      then show ?thesis by blast
    next
      case False
      with xs ys
      have "join sep (xs @ ys @ zs) = (join sep xs @ sep) @ join sep ys @ (sep @ join sep zs)"
        by (simp add: join_append)
      then show ?thesis by blast
    qed
  qed
qed

lemma sublist_join_context: "sublist (join sep ys) (join sep (xs @ ys @ zs))"
  using join_context [of sep xs ys zs] by (simp add: sublist_def)

lemma sublist_join_member:
  assumes "l \<in> set ls"
  shows "sublist l (join sep ls)"
proof -
  from assms obtain xs zs where "ls = xs @ [l] @ zs"
    by (metis append_Cons append_Nil split_list)
  then show ?thesis using sublist_join_context [of sep "[l]" xs zs] by simp
qed

lemma sublist_join_line:
  assumes "\<exists>l \<in> set ls. sublist n l"
  shows "sublist n (join sep ls)"
proof -
  from assms obtain l where "l \<in> set ls" and "sublist n l" by blast
  then show ?thesis
    using sublist_join_member [of l ls sep] sublist_order.order_trans by blast
qed

lemma notin_set_join:
  assumes "c \<notin> set sep" and "\<forall>l \<in> set ls. c \<notin> set l"
  shows "c \<notin> set (join sep ls)"
  using assms by (induction sep ls rule: join.induct) auto

text \<open>The capital letter X does not occur in the prompt without reference text.\<close>

lemma X_notin_prompt_without_reference: "0x58 \<notin> set prompt_without_reference"
  unfolding prompt_without_reference_def
  by (rule notin_set_join) (simp_all add: ascii_def newline_def)

lemma sublist_after: "prefix xs ys \<Longrightarrow> sublist xs (ps @ ys)"
  by (metis prefix_def sublist_appendI)

lemma proper_nouns_in_prompt: "list_all (\<lambda>n. sublist n prompt_without_reference) proper_nouns"
  unfolding prompt_without_reference_def proper_nouns_def
  apply (simp only: list.pred_inject)
  apply (intro conjI TrueI sublist_join_line)
  apply (simp_all add: sublist_after)
  done

lemma sublist_join_take_drop:
  assumes "take n (drop k ls) = ys"
  shows "sublist (join sep ys) (join sep ls)"
proof -
  have "ls = take k ls @ ys @ drop n (drop k ls)"
    using assms by (metis append_take_drop_id)
  then show ?thesis
    using sublist_join_context [of sep ys "take k ls" "drop n (drop k ls)"] by simp
qed

lemma reference_in_prompt:
  "sublist (reference_start_marker @ newline @ r @ newline @ reference_end_marker)
     (prompt_with_reference r)"
proof -
  have "sublist (join newline [reference_start_marker, r, reference_end_marker])
          (prompt_with_reference r)"
    unfolding prompt_with_reference_def
    by (rule sublist_join_take_drop [where n = 3 and k = 5])
       (simp add: reference_start_marker_def reference_end_marker_def)
  then show ?thesis by simp
qed

lemma X_in_markers:
  "0x58 \<in> set reference_start_marker" "0x58 \<in> set reference_end_marker"
  by (simp_all add: reference_start_marker_def reference_end_marker_def ascii_def)

lemma no_marker_in_prompt_without_reference:
  "\<not> sublist (ps @ reference_start_marker @ ss) prompt_without_reference"
  "\<not> sublist (ps @ reference_end_marker @ ss) prompt_without_reference"
  using X_in_markers X_notin_prompt_without_reference set_mono_sublist
  by fastforce+

lemma textPart_build_request:
  "textPart (build_request file base64Audio refText) = prompt_of refText"
  by (simp add: build_request_def)

lemma example_fileToBase64: "fileToBase64 example_file = Inr (Some (ascii ''AAAA''))"
  by (simp add: fileToBase64_def example_file_def ascii_def)

text \<open>
  C6 (amended). When the reference text is present and not empty, the instruction text of
  the request contains the start marker, the reference text as it is and the end marker,
  each on its own line in this order. When the reference text is absent, the instruction
  text contains every spelling of the list of proper nouns.
\<close>

theorem prompt_reference_or_proper_nouns:
  "r \<noteq> [] \<Longrightarrow>
     sublist (reference_start_marker @ newline @ r @ newline @ reference_end_marker)
       (textPart (build_request file base64Audio (Some r))) \<and>
     (\<forall>n \<in> set proper_nouns. sublist n (textPart (build_request file base64Audio None)))"
  using proper_nouns_in_prompt
  by (simp add: textPart_build_request prompt_of_def reference_in_prompt list_all_iff)

theorem prompt_reference_or_proper_nouns_witness:
  "ascii ''Kyoto'' \<noteq> [] \<and>
   sublist (reference_start_marker @ newline @ ascii ''Kyoto'' @ newline @ reference_end_marker)
     (textPart (build_request example_file (Some (ascii ''AAAA'')) (Some (ascii ''Kyoto'')))) \<and>
   sublist [0x96C5, 0x5B50, 0x69D8]
     (textPart (build_request example_file (Some (ascii ''AAAA'')) None))"
proof -
  have ne: "ascii ''Kyoto'' \<noteq> []" by (simp add: ascii_def)
  have "[0x96C5, 0x5B50, 0x69D8] \<in> set proper_nouns" by (simp add: proper_nouns_def)
  with prompt_reference_or_proper_nouns [OF ne, of example_file "Some (ascii ''AAAA'')"] ne
  show ?thesis by blast
qed

text \<open>
  C6 as stated fails for a reference text that is present and empty: the instruction text
  then has no start marker, so the empty text is not embedded between the markers.
\<close>

theorem empty_reference_not_embedded:
  "\<not> sublist (reference_start_marker @ newline @ [] @ newline @ reference_end_marker)
       (textPart (build_request example_file (Some (ascii ''AAAA'')) (Some [])))"
  using no_marker_in_prompt_without_reference(1) [of "[]"]
  by (simp add: textPart_build_request prompt_of_def)

text \<open>
  C10. With a reference text that is the empty string, \<open>generateTranscription\<close> does what
  it does without reference text: the request is the same, its instruction text is the
  prompt without reference, with the list of proper nouns, and neither delimiter marker
  occurs in it.
\<close>

theorem empty_reference_as_absent:
  "generateTranscription file (Some []) generateContent JSON_parse =
     generateTranscription file None generateContent JSON_parse \<and>
   build_request file base64Audio (Some []) = build_request file base64Audio None \<and>
   textPart (build_request file base64Audio (Some [])) = prompt_without_reference \<and>
   list_all (\<lambda>n. sublist n (textPart (build_request file base64Audio (Some [])))) proper_nouns \<and>
   \<not> sublist reference_start_marker (textPart (build_request file base64Audio (Some []))) \<and>
   \<not> sublist reference_end_marker (textPart (build_request file base64Audio (Some [])))"
proof -
  have req: "build_request file b (Some []) = build_request file b None" for b
    by (simp add: build_request_def prompt_of_def)
  have "generateTranscription file (Some []) generateContent JSON_parse =
     generateTranscription file None generateContent JSON_parse"
    by (cases "fileToBase64 file") (simp_all add: generateTranscription_def req)
  moreover have "textPart (build_request file base64Audio (Some [])) = prompt_without_reference"
    by (simp add: textPart_build_request prompt_of_def)
  moreover have "\<not> sublist reference_start_marker prompt_without_reference"
    using no_marker_in_prompt_without_reference(1) [of "[]" "[]"] by simp
  moreover have "\<not> sublist reference_end_marker prompt_without_reference"
    using no_marker_in_prompt_without_reference(2) [of "[]" "[]"] by simp
  ultimately show ?thesis using req proper_nouns_in_prompt by simp
qed

section \<open>Failures of the transcription\<close>

lemma try_block_service_throws:
  "generateContent request = Inl cause \<Longrightarrow>
     try_block generateContent JSON_parse request = Inl cause"
  by (simp add: try_block_def)

lemma try_block_parse_throws:
  "generateContent request = Inr reply \<Longrightarrow> JSON_parse (ToString reply) = Inl cause \<Longrightarrow>
     try_block generateContent JSON_parse request = Inl cause"
  by (simp add: try_block_def)

lemma try_block_not_array:
  "generateContent request = Inr reply \<Longrightarrow> JSON_parse (ToString reply) = Inr v \<Longrightarrow>
     \<not> Array_isArray v \<Longrightarrow>
     try_block generateContent JSON_parse request =
       Inl (Error (ascii ''API response is not a valid array.''))"
  by (cases v) (simp_all add: try_block_def Array_isArray_def)

lemma try_block_array:
  "generateContent request = Inr reply \<Longrightarrow>
     JSON_parse (ToString reply) = Inr (JArray elems) \<Longrightarrow>
     try_block generateContent JSON_parse request = Inr elems"
  by (simp add: try_block_def)

lemma generateTranscription_read:
  "fileToBase64 file = Inr base64Audio \<Longrightarrow>
     generateTranscription file refText generateContent JSON_parse =
       (case try_block generateContent JSON_parse (build_request file base64Audio refText) of
          Inl err \<Rightarrow> Inl (catch_block err)
        | Inr elems \<Rightarrow> Inr elems,
        [build_request file base64Audio refText])"
  by (simp add: generateTranscription_def Let_def)

text \<open>
  C7. When the reply of the service parses as JSON and the value is not an array,
  \<open>generateTranscription\<close> fails: the caller gets the error of the response format, whose
  message says that the response is not a valid array (behind the prefix that the
  \<open>catch\<close> block puts before every message), and no segments.
\<close>

theorem non_array_reply_fails:
  assumes "fileToBase64 file = Inr base64Audio"
    and "generateContent (build_request file base64Audio refText) = Inr reply"
    and "JSON_parse (ToString reply) = Inr v"
    and "\<not> Array_isArray v"
  shows "fst (generateTranscription file refText generateContent JSON_parse) =
           Inl (Error (ascii ''Failed to generate transcription: '' @
                       ascii ''API response is not a valid array.'')) \<and>
         \<not> (\<exists>elems. fst (generateTranscription file refText generateContent JSON_parse) =
                      Inr elems)"
  using assms
  by (simp add: generateTranscription_read try_block_not_array [of _ _ reply _ v] catch_block_def)

theorem non_array_reply_fails_witness:
  "fst (generateTranscription example_file None
          (\<lambda>request. Inr (Some (ascii ''{}''))) (\<lambda>jsonString. Inr (JObject []))) =
     Inl (Error (ascii ''Failed to generate transcription: '' @
                 ascii ''API response is not a valid array.''))"
proof -
  have "\<not> Array_isArray (JObject [])" by (simp add: Array_isArray_def)
  from non_array_reply_fails [where generateContent = "\<lambda>request. Inr (Some (ascii ''{}''))"
      and JSON_parse = "\<lambda>jsonString. Inr (JObject [])" and refText = None,
      OF example_fileToBase64 refl refl this]
  show ?thesis by blast
qed

text \<open>
  C8. When the call of the service or the parse throws, \<open>generateTranscription\<close> throws one
  error: its message is the message of the cause behind a fixed prefix when the cause is
  an \<open>Error\<close>, and a fixed message otherwise. The message is not empty, and exactly one
  request has been sent to the service.
\<close>

theorem failure_wrapped_once:
  assumes "fileToBase64 file = Inr base64Audio"
    and "generateContent (build_request file base64Audio refText) = Inl cause \<or>
         (\<exists>reply. generateContent (build_request file base64Audio refText) = Inr reply \<and>
                  JSON_parse (ToString reply) = Inl cause)"
  shows "generateTranscription file refText generateContent JSON_parse =
           (Inl (Error (case cause of
                          Error m \<Rightarrow> ascii ''Failed to generate transcription: '' @ m
                        | NonError \<Rightarrow> ascii ''An unknown error occurred during transcription.'')),
            [build_request file base64Audio refText]) \<and>
         (case cause of
            Error m \<Rightarrow> ascii ''Failed to generate transcription: '' @ m
          | NonError \<Rightarrow> ascii ''An unknown error occurred during transcription.'') \<noteq> []"
proof -
  from assms(2)
  have "try_block generateContent JSON_parse (build_request file base64Audio refText) = Inl cause"
    by (auto simp: try_block_service_throws try_block_parse_throws)
  with assms(1) show ?thesis
    by (cases cause) (simp_all add: generateTranscription_read catch_block_def ascii_def)
qed

theorem failure_wrapped_once_witness:
  "generateTranscription example_file None (\<lambda>request. Inl (Error (ascii ''Failed to fetch'')))
       (\<lambda>jsonString. Inr JNull) =
     (Inl (Error (ascii ''Failed to generate transcription: '' @ ascii ''Failed to fetch'')),
      [build_request example_file (Some (ascii ''AAAA'')) None]) \<and>
   generateTranscription example_file None (\<lambda>request. Inr None)
       (\<lambda>jsonString. Inl NonError) =
     (Inl (Error (ascii ''An unknown error occurred during transcription.'')),
      [build_request example_file (Some (ascii ''AAAA'')) None])"
proof
  have "(\<lambda>request. Inl (Error (ascii ''Failed to fetch'')) :: thrown + jsstring option)
          (build_request example_file (Some (ascii ''AAAA'')) None) =
        Inl (Error (ascii ''Failed to fetch''))"
    by simp
  then show "generateTranscription example_file None
       (\<lambda>request. Inl (Error (ascii ''Failed to fetch''))) (\<lambda>jsonString. Inr JNull) =
     (Inl (Error (ascii ''Failed to generate transcription: '' @ ascii ''Failed to fetch'')),
      [build_request example_file (Some (ascii ''AAAA'')) None])"
    using failure_wrapped_once
        [where generateContent = "\<lambda>request. Inl (Error (ascii ''Failed to fetch''))"
        and JSON_parse = "\<lambda>jsonString. Inr JNull" and refText = None
        and cause = "Error (ascii ''Failed to fetch'')", OF example_fileToBase64]
    by simp
  have "\<exists>reply. (\<lambda>request. Inr None :: thrown + jsstring option)
           (build_request example_file (Some (ascii ''AAAA'')) None) = Inr reply \<and>
         (\<lambda>jsonString. Inl NonError :: thrown + json) (ToString reply) = Inl NonError"
    by simp
  then show "generateTranscription example_file None (\<lambda>request. Inr None)
       (\<lambda>jsonString. Inl NonError) =
     (Inl (Error (ascii ''An unknown error occurred during transcription.'')),
      [build_request example_file (Some (ascii ''AAAA'')) None])"
    using failure_wrapped_once [where generateContent = "\<lambda>request. Inr None"
        and JSON_parse = "\<lambda>jsonString. Inl NonError" and refText = None
        and cause = NonError, OF example_fileToBase64]
    by simp
qed

section \<open>The caller on a failed attempt\<close>

lemma handleGenerateSrt_failure:
  assumes "audioFile st = Some file"
    and "fst (generateTranscription file (referenceText st) generateContent JSON_parse) = Inl err"
  shows "handleGenerateSrt st generateContent JSON_parse =
           Some (st\<lparr>isLoading := False,
                    error := Some (case err of
                                     Error m \<Rightarrow> m
                                   | NonError \<Rightarrow> ascii ''An unexpected error occurred.''),
                    srtContent := []\<rparr>)"
  using assms by (simp add: handleGenerateSrt_def Let_def)

lemma handleGenerateSrt_nonempty:
  assumes "audioFile st = Some file"
    and "handleGenerateSrt st generateContent JSON_parse = Some st'"
    and "srtContent st' \<noteq> []"
  shows "\<exists>elems. fst (generateTranscription file (referenceText st) generateContent JSON_parse) =
                  Inr elems"
  using assms
  by (cases "fst (generateTranscription file (referenceText st) generateContent JSON_parse)")
     (auto simp: handleGenerateSrt_def Let_def)

text \<open>
  C9. When \<open>generateTranscription\<close> fails, the attempt ends in one outcome: the handler
  leaves the SRT document empty and sets the error message, and no segments are returned.
  A handler run that ends with a non-empty document is one where \<open>generateTranscription\<close>
  has returned an array.
\<close>

theorem failed_attempt_leaves_srt_empty:
  assumes "audioFile st = Some file"
  shows "(fst (generateTranscription file (referenceText st) generateContent JSON_parse) = Inl err \<longrightarrow>
            (\<exists>st'. handleGenerateSrt st generateContent JSON_parse = Some st' \<and>
                   srtContent st' = [] \<and>
                   error st' = Some (case err of
                                       Error m \<Rightarrow> m
                                     | NonError \<Rightarrow> ascii ''An unexpected error occurred.'') \<and>
                   \<not> isLoading st')) \<and>
         (handleGenerateSrt st generateContent JSON_parse = Some st'' \<and> srtContent st'' \<noteq> [] \<longrightarrow>
            (\<exists>elems. fst (generateTranscription file (referenceText st) generateContent JSON_parse) =
                      Inr elems))"
  using handleGenerateSrt_failure [OF assms] handleGenerateSrt_nonempty [OF assms]
  by (auto simp del: not_None_eq)

lemma example_attempt_fails:
  "fst (generateTranscription example_file None
          (\<lambda>request. Inl (Error (ascii ''Failed to fetch''))) (\<lambda>jsonString. Inr JNull)) =
     Inl (Error (ascii ''Failed to generate transcription: '' @ ascii ''Failed to fetch''))"
  by (simp add: generateTranscription_read [OF example_fileToBase64] try_block_def
      catch_block_def)

lemma example_attempt_succeeds:
  "handleGenerateSrt example_state
       (\<lambda>request. Inr (Some (ascii ''[...]''))) (\<lambda>jsonString. Inr example_reply) =
     Some (example_state\<lparr>srtContent :=
             ascii ''1'' @ newline @ ascii ''00:00:00,500 --> 00:00:02,750'' @ newline @
             ascii ''Hello'' @ newline\<rparr>)"
  apply (simp add: handleGenerateSrt_def example_state_def
      generateTranscription_read [OF example_fileToBase64] try_block_def example_reply_def)
  apply (simp add: as_TranscriptionSegment_def ascii_def)
  apply (simp add: jsonToSrt_def Array_map_def srt_block_def formatTime_eval trim_def
      trimmable_def isWhiteSpace_def isLineTerminator_def newline_def)
  done

theorem failed_attempt_leaves_srt_empty_witness:
  "(\<exists>st'. handleGenerateSrt example_state
             (\<lambda>request. Inl (Error (ascii ''Failed to fetch''))) (\<lambda>jsonString. Inr JNull) =
           Some st' \<and>
          srtContent st' = [] \<and>
          error st' =
            Some (ascii ''Failed to generate transcription: '' @ ascii ''Failed to fetch'') \<and>
          \<not> isLoading st') \<and>
   (\<exists>elems. fst (generateTranscription example_file None
                   (\<lambda>request. Inr (Some (ascii ''[...]''))) (\<lambda>jsonString. Inr example_reply)) =
            Inr elems)"
proof
  have sel: "audioFile example_state = Some example_file"
    by (simp add: example_state_def)
  have ref: "referenceText example_state = None"
    by (simp add: example_state_def)
  have "fst (generateTranscription example_file (referenceText example_state)
          (\<lambda>request. Inl (Error (ascii ''Failed to fetch''))) (\<lambda>jsonString. Inr JNull)) =
     Inl (Error (ascii ''Failed to generate transcription: '' @ ascii ''Failed to fetch''))"
    using example_attempt_fails by (simp add: ref)
  with failed_attempt_leaves_srt_empty [OF sel,
      where generateContent = "\<lambda>request. Inl (Error (ascii ''Failed to fetch''))"
        and JSON_parse = "\<lambda>jsonString. Inr JNull"
        and err = "Error (ascii ''Failed to generate transcription: '' @ ascii ''Failed to fetch'')"]
  show "\<exists>st'. handleGenerateSrt example_state
             (\<lambda>request. Inl (Error (ascii ''Failed to fetch''))) (\<lambda>jsonString. Inr JNull) =
           Some st' \<and>
          srtContent st' = [] \<and>
          error st' =
            Some (ascii ''Failed to generate transcription: '' @ ascii ''Failed to fetch'') \<and>
          \<not> isLoading st'"
    by simp
  have "srtContent (example_state\<lparr>srtContent :=
             ascii ''1'' @ newline @ ascii ''00:00:00,500 --> 00:00:02,750'' @ newline @
             ascii ''Hello'' @ newline\<rparr>) \<noteq> []"
    by (simp add: ascii_def)
  with example_attempt_succeeds
    failed_attempt_leaves_srt_empty [OF sel,
      where generateContent = "\<lambda>request. Inr (Some (ascii ''[...]''))"
        and JSON_parse = "\<lambda>jsonString. Inr example_reply"
        and st'' = "example_state\<lparr>srtContent :=
             ascii ''1'' @ newline @ ascii ''00:00:00,500 --> 00:00:02,750'' @ newline @
             ascii ''Hello'' @ newline\<rparr>"]
  show "\<exists>elems. fst (generateTranscription example_file None
                   (\<lambda>request. Inr (Some (ascii ''[...]''))) (\<lambda>jsonString. Inr example_reply)) =
            Inr elems"
    by (simp only: ref) blast
qed

end
